theory Spec2Isabelle
  imports Main "HOL-Library.Word"
begin

unbundle bit_operations_syntax

section \<open>Python values used by the controller\<close>

text \<open>
  The program is one Python class, \<^verbatim>\<open>RFIDServoController\<close> (4BTask-1.py). A Python
  \<^verbatim>\<open>str\<close> is a sequence of Unicode code points, so it is modelled as a list of
  naturals; the bytes read from the USB endpoint and the bytes written to the
  serial port are 8-bit words. Exceptions are values: a call returns either
  \<open>Inl\<close> of the exception raised or \<open>Inr\<close> of its result.
\<close>

type_synonym byte = "8 word"
type_synonym pystr = "nat list"

definition str :: "string \<Rightarrow> pystr" where
  \<comment> \<open>a string literal of the source, as its code points\<close>
  "str cs = map of_char cs"

datatype exn =
  ValueError | UnicodeEncodeError | SerialException | FileNotFoundError | JSONDecodeError

subsection \<open>\<^verbatim>\<open>''.join([chr(byte) for byte in data]).strip()\<close>\<close>

definition chr :: "int \<Rightarrow> exn + nat" where
  \<comment> \<open>Python's \<^verbatim>\<open>chr\<close> raises ValueError outside \<^verbatim>\<open>range(0x110000)\<close>\<close>
  "chr i = (if 0 \<le> i \<and> i < 0x110000 then Inr (nat i) else Inl ValueError)"

fun chr_join :: "byte list \<Rightarrow> exn + pystr" where
  "chr_join [] = Inr []"
| "chr_join (b # bs) =
     (case chr (uint b) of
        Inl e \<Rightarrow> Inl e
      | Inr c \<Rightarrow> (case chr_join bs of Inl e \<Rightarrow> Inl e | Inr cs \<Rightarrow> Inr (c # cs)))"

definition isspace :: "nat \<Rightarrow> bool" where
  \<comment> \<open>the code points Python's \<^verbatim>\<open>str.strip()\<close> removes\<close>
  "isspace c \<longleftrightarrow>
     (9 \<le> c \<and> c \<le> 13) \<or> (28 \<le> c \<and> c \<le> 32) \<or> c = 0x85 \<or> c = 0xA0 \<or> c = 0x1680 \<or>
     (0x2000 \<le> c \<and> c \<le> 0x200A) \<or> c = 0x2028 \<or> c = 0x2029 \<or> c = 0x202F \<or>
     c = 0x205F \<or> c = 0x3000"

definition strip :: "pystr \<Rightarrow> pystr" where
  "strip s = rev (dropWhile isspace (rev (dropWhile isspace s)))"

subsection \<open>\<^verbatim>\<open>json.dumps\<close> on the command dictionaries\<close>

text \<open>
  The dictionaries handed to \<^verbatim>\<open>send_command\<close> hold booleans, integers and nested
  dictionaries with string keys. \<^verbatim>\<open>json.dumps\<close> runs with its defaults:
  separators \<^verbatim>\<open>", "\<close> and \<^verbatim>\<open>": "\<close>, and \<^verbatim>\<open>ensure_ascii=True\<close>, so that every
  character outside \<^verbatim>\<open>' '..'~'\<close>, the quote and the backslash are escaped.
\<close>

datatype json = JBool bool | JInt int | JObj "(pystr \<times> json) list"

definition hexdigit :: "nat \<Rightarrow> nat" where
  "hexdigit d = (if d < 10 then 48 + d else 87 + d)"

function hex_digits :: "nat \<Rightarrow> pystr" where
  "hex_digits n = (if n < 16 then [hexdigit n] else hex_digits (n div 16) @ [hexdigit (n mod 16)])"
  by pat_completeness auto
termination
  by (relation "measure id") auto

declare hex_digits.simps [simp del]

definition format_04x :: "nat \<Rightarrow> pystr" where
  \<comment> \<open>\<^verbatim>\<open>'{0:04x}'.format(n)\<close>: lower-case hexadecimal, zero-padded to four digits\<close>
  "format_04x n = replicate (4 - length (hex_digits n)) 48 @ hex_digits n"

definition escape_char :: "nat \<Rightarrow> pystr" where
  \<comment> \<open>\<^verbatim>\<open>ESCAPE_ASCII\<close> and \<^verbatim>\<open>ESCAPE_DCT\<close> of json.encoder; 92 is the backslash, 34 the quote\<close>
  "escape_char c =
     (if c = 92 then [92, 92]
      else if c = 34 then [92, 34]
      else if c = 8 then [92, 98]
      else if c = 12 then [92, 102]
      else if c = 10 then [92, 110]
      else if c = 13 then [92, 114]
      else if c = 9 then [92, 116]
      else if 32 \<le> c \<and> c \<le> 126 then [c]
      else if c < 0x10000 then [92, 117] @ format_04x c
      else
        (let n = c - 0x10000;
             s1 = 0xd800 OR (drop_bit 10 n AND 0x3ff);
             s2 = 0xdc00 OR (n AND 0x3ff)
         in [92, 117] @ format_04x s1 @ [92, 117] @ format_04x s2))"

definition encode_basestring_ascii :: "pystr \<Rightarrow> pystr" where
  "encode_basestring_ascii s = [34] @ concat (map escape_char s) @ [34]"

function decimal :: "nat \<Rightarrow> pystr" where
  "decimal n = (if n < 10 then [48 + n] else decimal (n div 10) @ [48 + n mod 10])"
  by pat_completeness auto
termination
  by (relation "measure id") auto

declare decimal.simps [simp del]

definition int_repr :: "int \<Rightarrow> pystr" where
  "int_repr i = (if i < 0 then 45 # decimal (nat (- i)) else decimal (nat i))"

fun join :: "pystr \<Rightarrow> pystr list \<Rightarrow> pystr" where
  "join sep [] = []"
| "join sep [x] = x"
| "join sep (x # y # ys) = x @ sep @ join sep (y # ys)"

fun json_dumps :: "json \<Rightarrow> pystr" where
  "json_dumps (JBool b) = (if b then str ''true'' else str ''false'')"
| "json_dumps (JInt i) = int_repr i"
| "json_dumps (JObj kvs) =
     str ''{'' @
     join (str '', '')
       (map (\<lambda>kv. encode_basestring_ascii (fst kv) @ str '': '' @ json_dumps (snd kv)) kvs) @
     str ''}''"

subsection \<open>\<^verbatim>\<open>str.encode()\<close>: UTF-8, strict\<close>

definition utf8 :: "nat \<Rightarrow> exn + byte list" where
  \<comment> \<open>surrogates cannot be encoded; no \<^verbatim>\<open>str\<close> holds a code point from 0x110000 on\<close>
  "utf8 c =
     (if c < 0x80 then Inr [of_nat c]
      else if c < 0x800 then Inr [of_nat (0xC0 + c div 64), of_nat (0x80 + c mod 64)]
      else if 0xD800 \<le> c \<and> c \<le> 0xDFFF then Inl UnicodeEncodeError
      else if c < 0x10000 then
        Inr [of_nat (0xE0 + c div 4096), of_nat (0x80 + c div 64 mod 64), of_nat (0x80 + c mod 64)]
      else if c < 0x110000 then
        Inr [of_nat (0xF0 + c div 262144), of_nat (0x80 + c div 4096 mod 64),
             of_nat (0x80 + c div 64 mod 64), of_nat (0x80 + c mod 64)]
      else Inl UnicodeEncodeError)"

fun encode :: "pystr \<Rightarrow> exn + byte list" where
  "encode [] = Inr []"
| "encode (c # cs) =
     (case utf8 c of
        Inl e \<Rightarrow> Inl e
      | Inr bs \<Rightarrow> (case encode cs of Inl e \<Rightarrow> Inl e | Inr rest \<Rightarrow> Inr (bs @ rest)))"

section \<open>The controller\<close>

subsection \<open>Configuration\<close>

text \<open>
  \<^verbatim>\<open>self.config\<close> is a dictionary with seven keys. \<^verbatim>\<open>load_config\<close> overlays it with
  the keys of config.json (\<^verbatim>\<open>dict.update\<close>): a key of the file replaces the whole
  built-in value, a key the file lacks keeps it. The values have the types the
  configuration format gives them: integers, a list of strings, and a map from
  colour names to pin numbers.
\<close>

record configuration =
  vendor_id :: int
  product_id :: int
  authorized_cards :: "pystr list"
  servo_default_pos :: int
  servo_allowed_pos :: int
  baud_rate :: int
  led_pins :: "pystr \<rightharpoonup> int"

definition default_config :: configuration where
  "default_config =
     \<lparr> vendor_id = 0x1234, product_id = 0x5678,
       authorized_cards = [str ''A1B2C3D4'', str ''E5F6G7H8''],
       servo_default_pos = 90, servo_allowed_pos = 180, baud_rate = 9600,
       led_pins = [str ''green'' \<mapsto> 3, str ''red'' \<mapsto> 4] \<rparr>"

record config_file =
  file_vendor_id :: "int option"
  file_product_id :: "int option"
  file_authorized_cards :: "pystr list option"
  file_servo_default_pos :: "int option"
  file_servo_allowed_pos :: "int option"
  file_baud_rate :: "int option"
  file_led_pins :: "(pystr \<rightharpoonup> int) option"

definition dict_update :: "configuration \<Rightarrow> config_file \<Rightarrow> configuration" where
  \<comment> \<open>\<^verbatim>\<open>self.config.update(new_config)\<close>\<close>
  "dict_update c f =
     \<lparr> vendor_id = (case file_vendor_id f of None \<Rightarrow> vendor_id c | Some v \<Rightarrow> v),
       product_id = (case file_product_id f of None \<Rightarrow> product_id c | Some v \<Rightarrow> v),
       authorized_cards =
         (case file_authorized_cards f of None \<Rightarrow> authorized_cards c | Some v \<Rightarrow> v),
       servo_default_pos =
         (case file_servo_default_pos f of None \<Rightarrow> servo_default_pos c | Some v \<Rightarrow> v),
       servo_allowed_pos =
         (case file_servo_allowed_pos f of None \<Rightarrow> servo_allowed_pos c | Some v \<Rightarrow> v),
       baud_rate = (case file_baud_rate f of None \<Rightarrow> baud_rate c | Some v \<Rightarrow> v),
       led_pins = (case file_led_pins f of None \<Rightarrow> led_pins c | Some v \<Rightarrow> v) \<rparr>"

subsection \<open>State\<close>

text \<open>
  The serial port is the only output device. Each \<^verbatim>\<open>ser.write\<close> either goes through
  or raises \<^verbatim>\<open>serial.SerialException\<close>; which of the two is the environment's choice,
  given as the list \<open>faults\<close> (one entry per coming write, \<open>True\<close> for a failure;
  when the list is used up, writes go through). \<open>tx\<close> records every write requested,
  in order, with whether it went through. What the program prints is recorded
  line by line in \<open>stdout\<close>; printing itself is taken to succeed, as it does on a
  terminal that accepts every character. \<^verbatim>\<open>time.sleep\<close> changes nothing in this
  state.
\<close>

record serial_port =
  faults :: "bool list"
  tx :: "(byte list \<times> bool) list"

datatype line =
    ConfigurationLoaded | NoConfigFile | InvalidConfigFile
  | CardRead pystr | ErrorProcessing exn
  | AccessGranted | AccessDenied
  | ErrorSending exn
  | CardAdded pystr | InvalidOrDuplicate

record controller =
  config :: configuration
  servo_control_enabled :: bool
  current_servo_pos :: int
  running :: bool
  ser :: serial_port
  stdout :: "line list"

definition print :: "line \<Rightarrow> controller \<Rightarrow> controller" where
  "print l s = s\<lparr>stdout := stdout s @ [l]\<rparr>"

definition emitted :: "controller \<Rightarrow> byte list list" where
  \<comment> \<open>the records handed to the serial port so far\<close>
  "emitted s = map fst (tx (ser s))"

definition then_do ::
  "(exn + unit) \<times> controller \<Rightarrow> (controller \<Rightarrow> (exn + 'a) \<times> controller) \<Rightarrow> (exn + 'a) \<times> controller"
where
  \<comment> \<open>two statements in sequence: an exception of the first skips the second\<close>
  "then_do r f = (case r of (Inl e, s) \<Rightarrow> (Inl e, s) | (Inr u, s) \<Rightarrow> f s)"

subsection \<open>Start-up\<close>

definition load_config :: "exn + config_file \<Rightarrow> controller \<Rightarrow> (exn + unit) \<times> controller" where
  \<comment> \<open>the argument is what \<^verbatim>\<open>open\<close> and \<^verbatim>\<open>json.load\<close> give for config.json\<close>
  "load_config file s =
     (case file of
        Inr new_config \<Rightarrow>
          (Inr (), print ConfigurationLoaded (s\<lparr>config := dict_update (config s) new_config\<rparr>))
      | Inl e \<Rightarrow>
          (if e = FileNotFoundError then (Inr (), print NoConfigFile s)
           else if e = JSONDecodeError then (Inr (), print InvalidConfigFile s)
           else (Inl e, s)))"

definition init :: "exn + config_file \<Rightarrow> bool list \<Rightarrow> (exn + unit) \<times> controller" where
  \<comment> \<open>\<^verbatim>\<open>__init__\<close> once the reader and the serial port are found; the position is
      set from the built-in configuration, before the file is read\<close>
  "init file fs =
     (case load_config file
             \<lparr> config = default_config, servo_control_enabled = False,
               current_servo_pos = servo_default_pos default_config, running = False,
               ser = \<lparr> faults = fs, tx = [] \<rparr>, stdout = [] \<rparr> of
        (Inl e, s) \<Rightarrow> (Inl e, s)
      | (Inr u, s) \<Rightarrow> (Inr (), s\<lparr>running := True\<rparr>))"

subsection \<open>Commands to the Arduino\<close>

definition ser_write :: "byte list \<Rightarrow> serial_port \<Rightarrow> (exn + unit) \<times> serial_port" where
  "ser_write bs p =
     (case faults p of
        [] \<Rightarrow> (Inr (), p\<lparr>tx := tx p @ [(bs, True)]\<rparr>)
      | failed # rest \<Rightarrow>
          (if failed then (Inl SerialException, p\<lparr>faults := rest, tx := tx p @ [(bs, False)]\<rparr>)
           else (Inr (), p\<lparr>faults := rest, tx := tx p @ [(bs, True)]\<rparr>)))"

definition encode_command :: "json \<Rightarrow> exn + byte list" where
  \<comment> \<open>\<^verbatim>\<open>(json.dumps(command) + "\n").encode()\<close>; 10 is the newline\<close>
  "encode_command command = encode (json_dumps command @ [10])"

definition line_bytes :: "json \<Rightarrow> byte list" where
  \<comment> \<open>the characters of the line, one byte each\<close>
  "line_bytes command = map of_nat (json_dumps command @ [10])"

definition send_command :: "json \<Rightarrow> controller \<Rightarrow> (exn + unit) \<times> controller" where
  \<comment> \<open>only \<^verbatim>\<open>serial.SerialException\<close> is caught\<close>
  "send_command command s =
     (case encode_command command of
        Inl e \<Rightarrow> (Inl e, s)
      | Inr bytes \<Rightarrow>
          (case ser_write bytes (ser s) of
             (Inl e, p) \<Rightarrow>
               (if e = SerialException then (Inr (), print (ErrorSending e) (s\<lparr>ser := p\<rparr>))
                else (Inl e, s\<lparr>ser := p\<rparr>))
           | (Inr u, p) \<Rightarrow> (Inr (), s\<lparr>ser := p\<rparr>)))"

definition led_command :: "pystr \<Rightarrow> bool \<Rightarrow> json" where
  \<comment> \<open>\<^verbatim>\<open>{"led": {color: state}}\<close>\<close>
  "led_command color state = JObj [(str ''led'', JObj [(color, JBool state)])]"

definition servo_enable_command :: "bool \<Rightarrow> json" where
  \<comment> \<open>\<^verbatim>\<open>{"servo": {"enable": True}}\<close> and \<^verbatim>\<open>{"servo": {"enable": False}}\<close>\<close>
  "servo_enable_command b = JObj [(str ''servo'', JObj [(str ''enable'', JBool b)])]"

definition set_position_command :: "int \<Rightarrow> json" where
  \<comment> \<open>\<^verbatim>\<open>{"servo": {"set_position": angle}}\<close>\<close>
  "set_position_command angle = JObj [(str ''servo'', JObj [(str ''set_position'', JInt angle)])]"

definition status_command :: "controller \<Rightarrow> json" where
  "status_command s =
     JObj [(str ''status'',
       JObj [(str ''servo'',
               JObj [(str ''position'', JInt (current_servo_pos s)),
                     (str ''enabled'', JBool (servo_control_enabled s))]),
             (str ''rfid'',
               JObj [(str ''cards_registered'', JInt (int (length (authorized_cards (config s)))))])])]"

definition control_led :: "pystr \<Rightarrow> bool \<Rightarrow> controller \<Rightarrow> (exn + unit) \<times> controller" where
  "control_led color state s =
     (case led_pins (config s) color of
        None \<Rightarrow> (Inr (), s)
      | Some pin \<Rightarrow> send_command (led_command color state) s)"

definition enable_servo_control :: "controller \<Rightarrow> (exn + unit) \<times> controller" where
  "enable_servo_control s =
     send_command (servo_enable_command True)
       (s\<lparr>servo_control_enabled := True, current_servo_pos := servo_allowed_pos (config s)\<rparr>)"

definition disable_servo_control :: "controller \<Rightarrow> (exn + unit) \<times> controller" where
  "disable_servo_control s =
     send_command (servo_enable_command False)
       (s\<lparr>servo_control_enabled := False, current_servo_pos := servo_default_pos (config s)\<rparr>)"

definition set_servo_position :: "int \<Rightarrow> controller \<Rightarrow> (exn + bool) \<times> controller" where
  "set_servo_position angle s =
     (if 0 \<le> angle \<and> angle \<le> 180 then
        then_do (send_command (set_position_command angle) (s\<lparr>current_servo_pos := angle\<rparr>))
          (\<lambda>s. (Inr True, s))
      else (Inr False, s))"

definition send_status_update :: "controller \<Rightarrow> (exn + unit) \<times> controller" where
  \<comment> \<open>one turn of the loop of \<^verbatim>\<open>send_status_updates\<close>\<close>
  "send_status_update s = send_command (status_command s) s"

subsection \<open>Card reads\<close>

definition grant_access :: "controller \<Rightarrow> (exn + unit) \<times> controller" where
  "grant_access s =
     then_do (control_led (str ''green'') True (print AccessGranted s))
       (\<lambda>s. then_do (enable_servo_control s)
         (\<lambda>s. control_led (str ''green'') False s))"

definition deny_access :: "controller \<Rightarrow> (exn + unit) \<times> controller" where
  "deny_access s =
     then_do (control_led (str ''red'') True (print AccessDenied s))
       (\<lambda>s. then_do (disable_servo_control s)
         (\<lambda>s. control_led (str ''red'') False s))"

definition handle_rfid_data :: "byte list \<Rightarrow> controller \<Rightarrow> controller" where
  \<comment> \<open>the \<^verbatim>\<open>except Exception\<close> clause prints and returns, keeping what was done before\<close>
  "handle_rfid_data data s =
     (case chr_join data of
        Inl e \<Rightarrow> print (ErrorProcessing e) s
      | Inr joined \<Rightarrow>
          (let card_id = strip joined;
               s1 = print (CardRead card_id) s
           in case (if card_id \<in> set (authorized_cards (config s1)) then grant_access s1
                    else deny_access s1) of
                (Inl e, s2) \<Rightarrow> print (ErrorProcessing e) s2
              | (Inr u, s2) \<Rightarrow> s2))"

subsection \<open>Registering a card from the console\<close>

definition add_authorized_card :: "pystr \<Rightarrow> controller \<Rightarrow> controller" where
  \<comment> \<open>branch \<^verbatim>\<open>cmd == '4'\<close> of \<^verbatim>\<open>process_user_input\<close>; the argument is the line that
      \<^verbatim>\<open>input("Enter new card ID: ")\<close> returns\<close>
  "add_authorized_card entered s =
     (let card = strip entered in
      if card \<noteq> [] \<and> card \<notin> set (authorized_cards (config s)) then
        print (CardAdded card)
          (s\<lparr>config := (config s)\<lparr>authorized_cards := authorized_cards (config s) @ [card]\<rparr>\<rparr>)
      else print InvalidOrDuplicate s)"

subsection \<open>Concrete runs\<close>

definition started :: "exn + config_file \<Rightarrow> bool list \<Rightarrow> controller" where
  \<comment> \<open>the controller once \<^verbatim>\<open>__init__\<close> has returned\<close>
  "started file fs = snd (init file fs)"

definition no_file :: "exn + config_file" where
  "no_file = Inl FileNotFoundError"

definition empty_file :: config_file where
  \<comment> \<open>the file \<^verbatim>\<open>{}\<close>\<close>
  "empty_file =
     \<lparr> file_vendor_id = None, file_product_id = None, file_authorized_cards = None,
       file_servo_default_pos = None, file_servo_allowed_pos = None, file_baud_rate = None,
       file_led_pins = None \<rparr>"

definition read_A1B2C3D4 :: "byte list" where
  \<comment> \<open>a read of the card A1B2C3D4, ended by carriage return and line feed\<close>
  "read_A1B2C3D4 = [0x41, 0x31, 0x42, 0x32, 0x43, 0x33, 0x44, 0x34, 0x0D, 0x0A]"

definition read_a1b2c3d4 :: "byte list" where
  \<comment> \<open>the same identifier in lower case\<close>
  "read_a1b2c3d4 = [0x61, 0x31, 0x62, 0x32, 0x63, 0x33, 0x64, 0x34]"

definition read_ZZZZ9999 :: "byte list" where
  "read_ZZZZ9999 = [0x5A, 0x5A, 0x5A, 0x5A, 0x39, 0x39, 0x39, 0x39]"

definition red_only_file :: config_file where
  "red_only_file = empty_file\<lparr>file_led_pins := Some [str ''red'' \<mapsto> 4]\<rparr>"

definition green_only_file :: config_file where
  "green_only_file = empty_file\<lparr>file_led_pins := Some [str ''green'' \<mapsto> 3]\<rparr>"

definition allowed_200_file :: config_file where
  "allowed_200_file = empty_file\<lparr>file_servo_allowed_pos := Some 200\<rparr>"

definition empty_card_file :: config_file where
  "empty_card_file = empty_file\<lparr>file_authorized_cards := Some [[], str ''A1B2C3D4'']\<rparr>"

definition read_blank :: "byte list" where
  "read_blank = [0x20, 0x0D, 0x0A]"

section \<open>Facts about decoding and encoding\<close>

lemma chr_byte: "chr (uint (b :: byte)) = Inr (unat b)"
proof -
  have "uint b < 256"
    using uint_bounded [of b] by simp
  then have "0 \<le> uint b \<and> uint b < 0x110000"
    by simp
  then show ?thesis
    by (simp add: chr_def)
qed

lemma chr_join_bytes: "chr_join data = Inr (map unat data)"
  by (induction data) (simp_all add: chr_byte)

lemma hexdigit_printable: "d < 16 \<Longrightarrow> 48 \<le> hexdigit d \<and> hexdigit d \<le> 102"
  by (simp add: hexdigit_def)

lemma hex_digits_printable: "c \<in> set (hex_digits n) \<Longrightarrow> 48 \<le> c \<and> c \<le> 102"
proof (induction n arbitrary: c rule: hex_digits.induct)
  case (1 n)
  show ?case
  proof (cases "n < 16")
    case True
    with "1.prems" have "c = hexdigit n"
      by (simp add: hex_digits.simps [of n])
    with True show ?thesis
      using hexdigit_printable [of n] by simp
  next
    case False
    with "1.prems" have "c \<in> set (hex_digits (n div 16)) \<or> c = hexdigit (n mod 16)"
      by (auto simp: hex_digits.simps [of n])
    then show ?thesis
    proof
      assume "c \<in> set (hex_digits (n div 16))"
      with False "1.IH" show ?thesis by simp
    next
      assume "c = hexdigit (n mod 16)"
      then show ?thesis
        using hexdigit_printable [of "n mod 16"] by simp
    qed
  qed
qed

lemma format_04x_printable: "c \<in> set (format_04x n) \<Longrightarrow> 48 \<le> c \<and> c \<le> 102"
  using hex_digits_printable [of c n] by (auto simp: format_04x_def)

lemma escape_char_printable: "x \<in> set (escape_char c) \<Longrightarrow> 32 \<le> x \<and> x \<le> 126"
  using format_04x_printable [of x]
  by (fastforce simp: escape_char_def Let_def split: if_splits)

lemma encode_basestring_ascii_printable:
  "x \<in> set (encode_basestring_ascii s) \<Longrightarrow> 32 \<le> x \<and> x \<le> 126"
  using escape_char_printable [of x] by (auto simp: encode_basestring_ascii_def)

lemma decimal_printable: "c \<in> set (decimal n) \<Longrightarrow> 48 \<le> c \<and> c \<le> 57"
proof (induction n arbitrary: c rule: decimal.induct)
  case (1 n)
  show ?case
  proof (cases "n < 10")
    case True
    with "1.prems" show ?thesis
      by (simp add: decimal.simps [of n])
  next
    case False
    with "1.prems" have "c \<in> set (decimal (n div 10)) \<or> c = 48 + n mod 10"
      by (auto simp: decimal.simps [of n])
    then show ?thesis
    proof
      assume "c \<in> set (decimal (n div 10))"
      with False "1.IH" show ?thesis by simp
    next
      assume "c = 48 + n mod 10"
      moreover have "n mod 10 < 10" by simp
      ultimately show ?thesis by linarith
    qed
  qed
qed

lemma int_repr_printable: "c \<in> set (int_repr i) \<Longrightarrow> 32 \<le> c \<and> c \<le> 126"
  using decimal_printable [of c] by (fastforce simp: int_repr_def split: if_splits)

lemma join_printable:
  assumes "\<And>x c. x \<in> set xs \<Longrightarrow> c \<in> set x \<Longrightarrow> P c" and "\<And>c. c \<in> set sep \<Longrightarrow> P c"
    and "c \<in> set (join sep xs)"
  shows "P c"
  using assms by (induction sep xs rule: join.induct) auto

lemma json_dumps_printable: "c \<in> set (json_dumps j) \<Longrightarrow> 32 \<le> c \<and> c \<le> 126"
proof (induction j arbitrary: c rule: json_dumps.induct)
  case (1 b)
  then show ?case by (auto simp: str_def split: if_splits)
next
  case (2 i)
  then show ?case using int_repr_printable by simp
next
  case (3 kvs)
  let ?items = "map (\<lambda>kv. encode_basestring_ascii (fst kv) @ str '': '' @ json_dumps (snd kv)) kvs"
  have items: "32 \<le> d \<and> d \<le> 126" if "x \<in> set ?items" "d \<in> set x" for x d
  proof -
    from that obtain kv where kv: "kv \<in> set kvs"
      and d: "d \<in> set (encode_basestring_ascii (fst kv) @ str '': '' @ json_dumps (snd kv))"
      by auto
    from d consider "d \<in> set (encode_basestring_ascii (fst kv))" | "d \<in> set (str '': '')"
      | "d \<in> set (json_dumps (snd kv))"
      by auto
    then show ?thesis
    proof cases
      case 1
      then show ?thesis by (rule encode_basestring_ascii_printable)
    next
      case 2
      then show ?thesis by (auto simp: str_def)
    next
      case 3
      with kv "3.IH" show ?thesis by blast
    qed
  qed
  have sep: "32 \<le> d \<and> d \<le> 126" if "d \<in> set (str '', '')" for d
    using that by (auto simp: str_def)
  from "3.prems" consider "c \<in> set (str ''{'')" | "c \<in> set (join (str '', '') ?items)"
    | "c \<in> set (str ''}'')"
    by auto
  then show ?case
  proof cases
    case 1
    then show ?thesis by (auto simp: str_def)
  next
    case 2
    show ?thesis
      by (rule join_printable [where P = "\<lambda>d. 32 \<le> d \<and> d \<le> 126", OF items sep 2])
  next
    case 3
    then show ?thesis by (auto simp: str_def)
  qed
qed

lemma encode_ascii: "\<forall>c \<in> set s. c < 128 \<Longrightarrow> encode s = Inr (map of_nat s)"
  by (induction s) (simp_all add: utf8_def)

section \<open>Facts about the controller\<close>

lemma encode_command_total: "encode_command command = Inr (line_bytes command)"
proof -
  have "\<forall>c \<in> set (json_dumps command @ [10]). c < 128"
    using json_dumps_printable [of _ command] by fastforce
  then show ?thesis
    unfolding encode_command_def line_bytes_def by (rule encode_ascii)
qed

lemma then_do_returned: "fst r = Inr u \<Longrightarrow> then_do r f = f (snd r)"
  by (cases r) (simp add: then_do_def)

lemma send_command_returns: "fst (send_command command s) = Inr ()"
  unfolding send_command_def encode_command_total
  by (auto simp: ser_write_def split: list.splits)

lemma send_command_emitted:
  "emitted (snd (send_command command s)) = emitted s @ [line_bytes command]"
  unfolding send_command_def encode_command_total
  by (auto simp: ser_write_def print_def emitted_def split: list.splits)

lemma send_command_state:
  "config (snd (send_command command s)) = config s"
  "servo_control_enabled (snd (send_command command s)) = servo_control_enabled s"
  "current_servo_pos (snd (send_command command s)) = current_servo_pos s"
  "running (snd (send_command command s)) = running s"
  unfolding send_command_def encode_command_total
  by (auto simp: ser_write_def print_def split: list.splits)

lemma control_led_returns: "fst (control_led color state s) = Inr ()"
  by (simp add: control_led_def send_command_returns split: option.splits)

lemma control_led_emitted:
  "emitted (snd (control_led color state s)) =
     emitted s @ (if color \<in> dom (led_pins (config s)) then [line_bytes (led_command color state)] else [])"
  by (auto simp: control_led_def send_command_emitted split: option.splits)

lemma control_led_state:
  "config (snd (control_led color state s)) = config s"
  "servo_control_enabled (snd (control_led color state s)) = servo_control_enabled s"
  "current_servo_pos (snd (control_led color state s)) = current_servo_pos s"
  "running (snd (control_led color state s)) = running s"
  by (simp_all add: control_led_def send_command_state split: option.splits)

lemma emitted_servo_fields:
  "emitted (s\<lparr>servo_control_enabled := b, current_servo_pos := a\<rparr>) = emitted s"
  "emitted (s\<lparr>current_servo_pos := a\<rparr>) = emitted s"
  "emitted (s\<lparr>servo_control_enabled := b\<rparr>) = emitted s"
  by (simp_all add: emitted_def)

lemma enable_servo_control_returns: "fst (enable_servo_control s) = Inr ()"
  by (simp add: enable_servo_control_def send_command_returns)

lemma enable_servo_control_emitted:
  "emitted (snd (enable_servo_control s)) = emitted s @ [line_bytes (servo_enable_command True)]"
  by (simp add: enable_servo_control_def send_command_emitted emitted_servo_fields)

lemma enable_servo_control_state:
  "config (snd (enable_servo_control s)) = config s"
  "servo_control_enabled (snd (enable_servo_control s))"
  "current_servo_pos (snd (enable_servo_control s)) = servo_allowed_pos (config s)"
  "running (snd (enable_servo_control s)) = running s"
  by (simp_all add: enable_servo_control_def send_command_state)

lemma disable_servo_control_returns: "fst (disable_servo_control s) = Inr ()"
  by (simp add: disable_servo_control_def send_command_returns)

lemma disable_servo_control_emitted:
  "emitted (snd (disable_servo_control s)) = emitted s @ [line_bytes (servo_enable_command False)]"
  by (simp add: disable_servo_control_def send_command_emitted emitted_servo_fields)

lemma disable_servo_control_state:
  "config (snd (disable_servo_control s)) = config s"
  "\<not> servo_control_enabled (snd (disable_servo_control s))"
  "current_servo_pos (snd (disable_servo_control s)) = servo_default_pos (config s)"
  "running (snd (disable_servo_control s)) = running s"
  by (simp_all add: disable_servo_control_def send_command_state)

lemma after_print:
  "config (print l s) = config s"
  "servo_control_enabled (print l s) = servo_control_enabled s"
  "current_servo_pos (print l s) = current_servo_pos s"
  "running (print l s) = running s"
  "emitted (print l s) = emitted s"
  by (simp_all add: print_def emitted_def)

lemma grant_access_unfold:
  "grant_access s =
     control_led (str ''green'') False
       (snd (enable_servo_control (snd (control_led (str ''green'') True (print AccessGranted s)))))"
  by (simp add: grant_access_def then_do_returned [OF control_led_returns]
      then_do_returned [OF enable_servo_control_returns])

lemma deny_access_unfold:
  "deny_access s =
     control_led (str ''red'') False
       (snd (disable_servo_control (snd (control_led (str ''red'') True (print AccessDenied s)))))"
  by (simp add: deny_access_def then_do_returned [OF control_led_returns]
      then_do_returned [OF disable_servo_control_returns])

lemma grant_access_returns: "fst (grant_access s) = Inr ()"
  by (simp add: grant_access_unfold control_led_returns)

lemma deny_access_returns: "fst (deny_access s) = Inr ()"
  by (simp add: deny_access_unfold control_led_returns)

lemma grant_access_emitted:
  "emitted (snd (grant_access s)) =
     emitted s @
     (if str ''green'' \<in> dom (led_pins (config s))
      then [line_bytes (led_command (str ''green'') True)] else []) @
     [line_bytes (servo_enable_command True)] @
     (if str ''green'' \<in> dom (led_pins (config s))
      then [line_bytes (led_command (str ''green'') False)] else [])"
  by (simp add: grant_access_unfold control_led_emitted control_led_state
      enable_servo_control_emitted enable_servo_control_state after_print)

lemma grant_access_state:
  "config (snd (grant_access s)) = config s"
  "servo_control_enabled (snd (grant_access s))"
  "current_servo_pos (snd (grant_access s)) = servo_allowed_pos (config s)"
  "running (snd (grant_access s)) = running s"
  by (simp_all add: grant_access_unfold control_led_state enable_servo_control_state after_print)

lemma deny_access_emitted:
  "emitted (snd (deny_access s)) =
     emitted s @
     (if str ''red'' \<in> dom (led_pins (config s))
      then [line_bytes (led_command (str ''red'') True)] else []) @
     [line_bytes (servo_enable_command False)] @
     (if str ''red'' \<in> dom (led_pins (config s))
      then [line_bytes (led_command (str ''red'') False)] else [])"
  by (simp add: deny_access_unfold control_led_emitted control_led_state
      disable_servo_control_emitted disable_servo_control_state after_print)

lemma deny_access_state:
  "config (snd (deny_access s)) = config s"
  "\<not> servo_control_enabled (snd (deny_access s))"
  "current_servo_pos (snd (deny_access s)) = servo_default_pos (config s)"
  "running (snd (deny_access s)) = running s"
  by (simp_all add: deny_access_unfold control_led_state disable_servo_control_state after_print)

lemma handle_rfid_data_unfold:
  "handle_rfid_data data s =
     snd ((if strip (map unat data) \<in> set (authorized_cards (config s)) then grant_access
           else deny_access) (print (CardRead (strip (map unat data))) s))"
proof -
  have "(case r of (Inl e, s2) \<Rightarrow> print (ErrorProcessing e) s2 | (Inr u, s2) \<Rightarrow> s2) = snd r"
    if "fst r = Inr ()" for r :: "(exn + unit) \<times> controller"
    using that by (cases r) auto
  then show ?thesis
    by (simp add: handle_rfid_data_def chr_join_bytes Let_def after_print
        grant_access_returns deny_access_returns)
qed

lemma started_no_file:
  "config (started no_file fs) = default_config"
  "current_servo_pos (started no_file fs) = 90"
  "\<not> servo_control_enabled (started no_file fs)"
  "emitted (started no_file fs) = []"
  by (simp_all add: started_def no_file_def init_def load_config_def print_def emitted_def
      default_config_def)

lemma read_A1B2C3D4_card: "strip (map unat read_A1B2C3D4) = str ''A1B2C3D4''"
  by (simp add: read_A1B2C3D4_def strip_def isspace_def str_def)

lemma read_a1b2c3d4_card: "strip (map unat read_a1b2c3d4) = str ''a1b2c3d4''"
  by (simp add: read_a1b2c3d4_def strip_def isspace_def str_def)

lemma started_file:
  "config (started (Inr f) fs) = dict_update default_config f"
  "current_servo_pos (started (Inr f) fs) = 90"
  "\<not> servo_control_enabled (started (Inr f) fs)"
  "emitted (started (Inr f) fs) = []"
  by (simp_all add: started_def init_def load_config_def print_def emitted_def default_config_def)

lemma read_ZZZZ9999_card: "strip (map unat read_ZZZZ9999) = str ''ZZZZ9999''"
  by (simp add: read_ZZZZ9999_def strip_def isspace_def str_def)

lemma read_blank_card: "strip (map unat read_blank) = []"
  by (simp add: read_blank_def strip_def isspace_def)

text \<open>
  The records of the wire protocol, character by character, as \<^verbatim>\<open>json.dumps\<close> writes
  the dictionaries of the source; a non-negative integer is written in decimal
  digits, without a leading zero, and the digits give its value back.
\<close>

lemma decimal_digits_value:
  "foldl (\<lambda>a d. 10 * a + (d - 48)) 0 (decimal n) = n"
proof (induction n rule: decimal.induct)
  case (1 n)
  show ?case
  proof (cases "n < 10")
    case True
    then show ?thesis
      by (simp add: decimal.simps [of n])
  next
    case False
    with "1.IH" show ?thesis
      by (simp add: decimal.simps [of n])
  qed
qed

lemma decimal_no_leading_zero:
  "decimal n \<noteq> [] \<and> (hd (decimal n) = 48 \<longrightarrow> n = 0)"
proof (induction n rule: decimal.induct)
  case (1 n)
  show ?case
  proof (cases "n < 10")
    case True
    then show ?thesis
      by (simp add: decimal.simps [of n])
  next
    case False
    with "1.IH" have "decimal (n div 10) \<noteq> []" and "hd (decimal (n div 10)) \<noteq> 48"
      by auto
    with False show ?thesis
      by (simp add: decimal.simps [of n])
  qed
qed

lemma decimal_zero: "decimal 0 = [48]"
  by (subst decimal.simps) simp

lemma int_repr_nonnegative:
  "0 \<le> i \<Longrightarrow>
     int_repr i \<noteq> [] \<and> (hd (int_repr i) = 48 \<longrightarrow> int_repr i = [48]) \<and>
     (\<forall>d \<in> set (int_repr i). 48 \<le> d \<and> d \<le> 57) \<and>
     foldl (\<lambda>a d. 10 * a + (d - 48)) 0 (int_repr i) = nat i"
  using decimal_printable [of _ "nat i"] decimal_no_leading_zero [of "nat i"]
  by (auto simp: int_repr_def decimal_digits_value decimal_zero)

lemma led_wire:
  \<open>line_bytes (led_command (str ''green'') True) = map of_nat (str ''{"led": {"green": true}}'' @ [10])\<close>
  \<open>line_bytes (led_command (str ''green'') False) = map of_nat (str ''{"led": {"green": false}}'' @ [10])\<close>
  \<open>line_bytes (led_command (str ''red'') True) = map of_nat (str ''{"led": {"red": true}}'' @ [10])\<close>
  \<open>line_bytes (led_command (str ''red'') False) = map of_nat (str ''{"led": {"red": false}}'' @ [10])\<close>
  by (simp_all add: line_bytes_def led_command_def encode_basestring_ascii_def escape_char_def
      str_def)

lemma servo_enable_wire:
  \<open>line_bytes (servo_enable_command True) = map of_nat (str ''{"servo": {"enable": true}}'' @ [10])\<close>
  \<open>line_bytes (servo_enable_command False) = map of_nat (str ''{"servo": {"enable": false}}'' @ [10])\<close>
  by (simp_all add: line_bytes_def servo_enable_command_def encode_basestring_ascii_def
      escape_char_def str_def)

lemma set_position_wire:
  \<open>line_bytes (set_position_command angle) =
     map of_nat (str ''{"servo": {"set_position": '' @ int_repr angle @ str ''}}'' @ [10])\<close>
  by (simp add: line_bytes_def set_position_command_def encode_basestring_ascii_def
      escape_char_def str_def)

lemma status_wire:
  \<open>line_bytes (status_command (started no_file [])) =
     map of_nat (str ''{"status": {"servo": {"position": 90, "enabled": false}, "rfid": {"cards_registered": 2}}}'' @ [10])\<close>
  by (simp add: line_bytes_def status_command_def started_no_file default_config_def
      encode_basestring_ascii_def escape_char_def int_repr_def decimal.simps str_def)

section \<open>Card reads: the grant transition\<close>

text \<open>
  Claim C1, as amended. For every read whose decoded and trimmed identifier is in the
  authorized list, \<^verbatim>\<open>handle_rfid_data\<close> sends the servo-enable command, and ends with
  the servo enabled at \<^verbatim>\<open>servo_allowed_pos\<close>. The two LED commands (green on before,
  green off after) are sent exactly when the configured pin map has an entry for
  \<^verbatim>\<open>"green"\<close>: \<^verbatim>\<open>control_led\<close> skips a colour without one. Each record is given
  by the text of its line, which a newline ends. The state \<open>s\<close> is arbitrary, so the
  statement holds for every pattern of failing serial writes.
\<close>

theorem grant_transition:
  assumes \<open>chr_join data = Inr joined\<close>
    and \<open>strip joined \<in> set (authorized_cards (config s))\<close>
  shows \<open>emitted (handle_rfid_data data s) =
           emitted s @
           (if str ''green'' \<in> dom (led_pins (config s))
            then [map of_nat (str ''{"led": {"green": true}}'' @ [10])] else []) @
           [map of_nat (str ''{"servo": {"enable": true}}'' @ [10])] @
           (if str ''green'' \<in> dom (led_pins (config s))
            then [map of_nat (str ''{"led": {"green": false}}'' @ [10])] else []) \<and>
         servo_control_enabled (handle_rfid_data data s) \<and>
         current_servo_pos (handle_rfid_data data s) = servo_allowed_pos (config s)\<close>
proof -
  from assms(1) have "joined = map unat data"
    by (simp add: chr_join_bytes)
  with assms(2) have "handle_rfid_data data s =
      snd (grant_access (print (CardRead (strip (map unat data))) s))"
    by (simp add: handle_rfid_data_unfold)
  then show ?thesis
    by (simp add: grant_access_emitted grant_access_state after_print led_wire servo_enable_wire)
qed

text \<open>
  With the built-in configuration and all three writes failing, the read of card
  A1B2C3D4 still sends the three commands in order and leaves the servo enabled at 180.
\<close>

theorem grant_transition_witness:
  \<open>chr_join read_A1B2C3D4 = Inr (map unat read_A1B2C3D4) \<and>
   strip (map unat read_A1B2C3D4)
     \<in> set (authorized_cards (config (started no_file [True, True, True]))) \<and>
   emitted (handle_rfid_data read_A1B2C3D4 (started no_file [True, True, True])) =
     [map of_nat (str ''{"led": {"green": true}}'' @ [10]),
      map of_nat (str ''{"servo": {"enable": true}}'' @ [10]),
      map of_nat (str ''{"led": {"green": false}}'' @ [10])] \<and>
   servo_control_enabled (handle_rfid_data read_A1B2C3D4 (started no_file [True, True, True])) \<and>
   current_servo_pos (handle_rfid_data read_A1B2C3D4 (started no_file [True, True, True])) = 180\<close>
proof -
  have decoded: "chr_join read_A1B2C3D4 = Inr (map unat read_A1B2C3D4)"
    by (rule chr_join_bytes)
  have listed: "strip (map unat read_A1B2C3D4)
      \<in> set (authorized_cards (config (started no_file [True, True, True])))"
    by (simp add: read_A1B2C3D4_card started_no_file default_config_def)
  have pins: "str ''green'' \<in> dom (led_pins (config (started no_file [True, True, True])))"
    by (simp add: started_no_file default_config_def)
  have allowed: "servo_allowed_pos (config (started no_file [True, True, True])) = 180"
    by (simp add: started_no_file default_config_def)
  show ?thesis
    using grant_transition [OF decoded listed] decoded listed pins allowed
    by (simp add: started_no_file(4))
qed

text \<open>
  Claim C1 as first stated fails: with a configuration file whose \<^verbatim>\<open>led_pins\<close> lists
  only \<^verbatim>\<open>"red"\<close>, the authorized card A1B2C3D4 is granted with the servo command
  alone, without any LED command.
\<close>

theorem grant_sequence_counterexample:
  \<open>chr_join read_A1B2C3D4 = Inr (map unat read_A1B2C3D4) \<and>
   strip (map unat read_A1B2C3D4)
     \<in> set (authorized_cards (config (started (Inr red_only_file) []))) \<and>
   emitted (handle_rfid_data read_A1B2C3D4 (started (Inr red_only_file) [])) =
     emitted (started (Inr red_only_file) []) @
     [map of_nat (str ''{"servo": {"enable": true}}'' @ [10])] \<and>
   emitted (handle_rfid_data read_A1B2C3D4 (started (Inr red_only_file) [])) \<noteq>
     emitted (started (Inr red_only_file) []) @
     [map of_nat (str ''{"led": {"green": true}}'' @ [10]),
      map of_nat (str ''{"servo": {"enable": true}}'' @ [10]),
      map of_nat (str ''{"led": {"green": false}}'' @ [10])]\<close>
proof -
  have cfg: "config (started (Inr red_only_file) []) =
      default_config\<lparr>led_pins := [str ''red'' \<mapsto> 4]\<rparr>"
    by (simp add: started_file dict_update_def red_only_file_def empty_file_def default_config_def)
  have listed: "str ''A1B2C3D4'' \<in> set (authorized_cards (config (started (Inr red_only_file) [])))"
    by (simp add: cfg default_config_def)
  have pins: "str ''green'' \<notin> dom (led_pins (config (started (Inr red_only_file) [])))"
    by (simp add: cfg str_def)
  have "emitted (handle_rfid_data read_A1B2C3D4 (started (Inr red_only_file) [])) =
      [line_bytes (servo_enable_command True)]"
    using pins listed
    by (simp add: handle_rfid_data_unfold read_A1B2C3D4_card grant_access_emitted
        after_print started_file(4))
  then show ?thesis
    using listed
    by (simp add: chr_join_bytes read_A1B2C3D4_card started_file(4) servo_enable_wire)
qed

section \<open>Card reads: the deny transition\<close>

text \<open>
  Claim C2, as amended. For every read whose decoded and trimmed identifier is not in
  the authorized list, \<^verbatim>\<open>handle_rfid_data\<close> sends the servo-disable command, and ends
  with the servo disabled at \<^verbatim>\<open>servo_default_pos\<close>. The two LED commands (red on
  before, red off after) are sent exactly when the configured pin map has an entry
  for \<^verbatim>\<open>"red"\<close>. Each record is given by the text of its line, which a newline
  ends. The state \<open>s\<close> is arbitrary, so the statement holds for every pattern of
  failing serial writes.
\<close>

theorem deny_transition:
  assumes \<open>chr_join data = Inr joined\<close>
    and \<open>strip joined \<notin> set (authorized_cards (config s))\<close>
  shows \<open>emitted (handle_rfid_data data s) =
           emitted s @
           (if str ''red'' \<in> dom (led_pins (config s))
            then [map of_nat (str ''{"led": {"red": true}}'' @ [10])] else []) @
           [map of_nat (str ''{"servo": {"enable": false}}'' @ [10])] @
           (if str ''red'' \<in> dom (led_pins (config s))
            then [map of_nat (str ''{"led": {"red": false}}'' @ [10])] else []) \<and>
         \<not> servo_control_enabled (handle_rfid_data data s) \<and>
         current_servo_pos (handle_rfid_data data s) = servo_default_pos (config s)\<close>
proof -
  from assms(1) have "joined = map unat data"
    by (simp add: chr_join_bytes)
  with assms(2) have "handle_rfid_data data s =
      snd (deny_access (print (CardRead (strip (map unat data))) s))"
    by (simp add: handle_rfid_data_unfold)
  then show ?thesis
    by (simp add: deny_access_emitted deny_access_state after_print led_wire servo_enable_wire)
qed

text \<open>
  With the built-in configuration and the last two writes failing, the read of card
  ZZZZ9999 sends the three commands in order and leaves the servo disabled at 90.
\<close>

theorem deny_transition_witness:
  \<open>chr_join read_ZZZZ9999 = Inr (map unat read_ZZZZ9999) \<and>
   strip (map unat read_ZZZZ9999)
     \<notin> set (authorized_cards (config (started no_file [False, True, True]))) \<and>
   emitted (handle_rfid_data read_ZZZZ9999 (started no_file [False, True, True])) =
     [map of_nat (str ''{"led": {"red": true}}'' @ [10]),
      map of_nat (str ''{"servo": {"enable": false}}'' @ [10]),
      map of_nat (str ''{"led": {"red": false}}'' @ [10])] \<and>
   \<not> servo_control_enabled (handle_rfid_data read_ZZZZ9999 (started no_file [False, True, True])) \<and>
   current_servo_pos (handle_rfid_data read_ZZZZ9999 (started no_file [False, True, True])) = 90\<close>
proof -
  have decoded: "chr_join read_ZZZZ9999 = Inr (map unat read_ZZZZ9999)"
    by (rule chr_join_bytes)
  have unlisted: "strip (map unat read_ZZZZ9999)
      \<notin> set (authorized_cards (config (started no_file [False, True, True])))"
    by (simp add: read_ZZZZ9999_card started_no_file default_config_def str_def)
  have pins: "str ''red'' \<in> dom (led_pins (config (started no_file [False, True, True])))"
    by (simp add: started_no_file default_config_def)
  have default: "servo_default_pos (config (started no_file [False, True, True])) = 90"
    by (simp add: started_no_file default_config_def)
  show ?thesis
    using deny_transition [OF decoded unlisted] decoded unlisted pins default
    by (simp add: started_no_file(4))
qed

text \<open>
  Claim C2 as first stated fails: with a configuration file whose \<^verbatim>\<open>led_pins\<close> lists
  only \<^verbatim>\<open>"green"\<close>, the unknown card ZZZZ9999 is denied with the servo command alone,
  without any LED command.
\<close>

theorem deny_sequence_counterexample:
  \<open>chr_join read_ZZZZ9999 = Inr (map unat read_ZZZZ9999) \<and>
   strip (map unat read_ZZZZ9999)
     \<notin> set (authorized_cards (config (started (Inr green_only_file) []))) \<and>
   emitted (handle_rfid_data read_ZZZZ9999 (started (Inr green_only_file) [])) =
     emitted (started (Inr green_only_file) []) @
     [map of_nat (str ''{"servo": {"enable": false}}'' @ [10])] \<and>
   emitted (handle_rfid_data read_ZZZZ9999 (started (Inr green_only_file) [])) \<noteq>
     emitted (started (Inr green_only_file) []) @
     [map of_nat (str ''{"led": {"red": true}}'' @ [10]),
      map of_nat (str ''{"servo": {"enable": false}}'' @ [10]),
      map of_nat (str ''{"led": {"red": false}}'' @ [10])]\<close>
proof -
  have cfg: "config (started (Inr green_only_file) []) =
      default_config\<lparr>led_pins := [str ''green'' \<mapsto> 3]\<rparr>"
    by (simp add: started_file dict_update_def green_only_file_def empty_file_def default_config_def)
  have unlisted: "str ''ZZZZ9999'' \<notin> set (authorized_cards (config (started (Inr green_only_file) [])))"
    by (simp add: cfg default_config_def str_def)
  have pins: "str ''red'' \<notin> dom (led_pins (config (started (Inr green_only_file) [])))"
    by (simp add: cfg str_def)
  have "emitted (handle_rfid_data read_ZZZZ9999 (started (Inr green_only_file) [])) =
      [line_bytes (servo_enable_command False)]"
    using pins unlisted
    by (simp add: handle_rfid_data_unfold read_ZZZZ9999_card deny_access_emitted
        after_print started_file(4))
  then show ?thesis
    using unlisted
    by (simp add: chr_join_bytes read_ZZZZ9999_card started_file(4) servo_enable_wire)
qed

section \<open>The authorization check\<close>

text \<open>
  Claim C3. Decoding a read gives the characters whose codes are its bytes; the handler
  then takes the grant branch if the trimmed string is an element of
  \<^verbatim>\<open>authorized_cards\<close> and the deny branch otherwise, and no other branch. So the
  servo ends enabled if and only if the trimmed string is in the list. Elements are
  compared as they are, code point by code point: nothing but the trimming of the
  read changes either side.
\<close>

theorem authorization_is_membership:
  "chr_join data = Inr (map unat data) \<and>
   handle_rfid_data data s =
     snd ((if strip (map unat data) \<in> set (authorized_cards (config s)) then grant_access
           else deny_access) (print (CardRead (strip (map unat data))) s)) \<and>
   (servo_control_enabled (handle_rfid_data data s) \<longleftrightarrow>
      strip (map unat data) \<in> set (authorized_cards (config s)))"
proof (intro conjI)
  show "chr_join data = Inr (map unat data)"
    by (rule chr_join_bytes)
  show "handle_rfid_data data s =
     snd ((if strip (map unat data) \<in> set (authorized_cards (config s)) then grant_access
           else deny_access) (print (CardRead (strip (map unat data))) s))"
    by (rule handle_rfid_data_unfold)
  show "servo_control_enabled (handle_rfid_data data s) \<longleftrightarrow>
      strip (map unat data) \<in> set (authorized_cards (config s))"
    by (simp add: handle_rfid_data_unfold grant_access_state deny_access_state)
qed

text \<open>
  With the built-in list, the read A1B2C3D4 (followed by carriage return and line
  feed) is authorized; the same identifier in lower case and an unknown one are not.
\<close>

theorem authorization_is_membership_witness:
  "servo_control_enabled (handle_rfid_data read_A1B2C3D4 (started no_file [])) \<and>
   \<not> servo_control_enabled (handle_rfid_data read_a1b2c3d4 (started no_file [])) \<and>
   \<not> servo_control_enabled (handle_rfid_data read_ZZZZ9999 (started no_file []))"
proof -
  have listed: "strip (map unat read_A1B2C3D4)
      \<in> set (authorized_cards (config (started no_file [])))"
    by (simp add: read_A1B2C3D4_card started_no_file default_config_def)
  have lower: "strip (map unat read_a1b2c3d4)
      \<notin> set (authorized_cards (config (started no_file [])))"
    by (simp add: read_a1b2c3d4_card started_no_file default_config_def str_def)
  have other: "strip (map unat read_ZZZZ9999)
      \<notin> set (authorized_cards (config (started no_file [])))"
    by (simp add: read_ZZZZ9999_card started_no_file default_config_def str_def)
  from listed authorization_is_membership [of read_A1B2C3D4 "started no_file []"]
  have "servo_control_enabled (handle_rfid_data read_A1B2C3D4 (started no_file []))"
    by blast
  moreover from lower authorization_is_membership [of read_a1b2c3d4 "started no_file []"]
  have "\<not> servo_control_enabled (handle_rfid_data read_a1b2c3d4 (started no_file []))"
    by blast
  moreover from other authorization_is_membership [of read_ZZZZ9999 "started no_file []"]
  have "\<not> servo_control_enabled (handle_rfid_data read_ZZZZ9999 (started no_file []))"
    by blast
  ultimately show ?thesis
    by blast
qed

section \<open>Setting the servo position by hand\<close>

text \<open>
  Claim C4. For an angle from 0 to 180, \<^verbatim>\<open>set_servo_position\<close> returns \<^verbatim>\<open>True\<close>,
  stores the angle and sends the set-position command: the line
  \<^verbatim>\<open>{"servo": {"set_position": N}}\<close>, where \<^verbatim>\<open>N\<close> is the angle in decimal
  digits, without a leading zero. For any other angle it returns
  \<^verbatim>\<open>False\<close> and the whole state, the serial port included, is as before. In both
  cases the enabled flag keeps its value.
\<close>

theorem set_servo_position_accepts_0_to_180:
  \<open>(0 \<le> angle \<and> angle \<le> 180 \<longrightarrow>
      fst (set_servo_position angle s) = Inr True \<and>
      current_servo_pos (snd (set_servo_position angle s)) = angle \<and>
      emitted (snd (set_servo_position angle s)) =
        emitted s @
        [map of_nat (str ''{"servo": {"set_position": '' @ int_repr angle @ str ''}}'' @ [10])] \<and>
      int_repr angle \<noteq> [] \<and> (hd (int_repr angle) = 48 \<longrightarrow> int_repr angle = [48]) \<and>
      (\<forall>d \<in> set (int_repr angle). 48 \<le> d \<and> d \<le> 57) \<and>
      foldl (\<lambda>a d. 10 * a + (d - 48)) 0 (int_repr angle) = nat angle) \<and>
   (\<not> (0 \<le> angle \<and> angle \<le> 180) \<longrightarrow> set_servo_position angle s = (Inr False, s)) \<and>
   servo_control_enabled (snd (set_servo_position angle s)) = servo_control_enabled s\<close>
proof -
  have digits: "0 \<le> angle \<and> angle \<le> 180 \<longrightarrow>
      int_repr angle \<noteq> [] \<and> (hd (int_repr angle) = 48 \<longrightarrow> int_repr angle = [48]) \<and>
      (\<forall>d \<in> set (int_repr angle). 48 \<le> d \<and> d \<le> 57) \<and>
      foldl (\<lambda>a d. 10 * a + (d - 48)) 0 (int_repr angle) = nat angle"
    using int_repr_nonnegative [of angle] by blast
  have accepted: \<open>0 \<le> angle \<and> angle \<le> 180 \<longrightarrow>
      fst (set_servo_position angle s) = Inr True \<and>
      current_servo_pos (snd (set_servo_position angle s)) = angle \<and>
      emitted (snd (set_servo_position angle s)) =
        emitted s @
        [map of_nat (str ''{"servo": {"set_position": '' @ int_repr angle @ str ''}}'' @ [10])]\<close>
    by (simp add: set_servo_position_def then_do_returned [OF send_command_returns]
        send_command_state send_command_emitted emitted_servo_fields set_position_wire)
  have rejected: "\<not> (0 \<le> angle \<and> angle \<le> 180) \<longrightarrow>
      set_servo_position angle s = (Inr False, s)"
    by (simp add: set_servo_position_def)
  have flag: "servo_control_enabled (snd (set_servo_position angle s)) = servo_control_enabled s"
    by (simp add: set_servo_position_def then_do_returned [OF send_command_returns]
        send_command_state)
  from digits accepted rejected flag show ?thesis
    by blast
qed

text \<open>
  The bounds 0 and 180 are accepted and sent as \<^verbatim>\<open>0\<close> and \<^verbatim>\<open>180\<close>, also when the
  write fails; -1 and 181 are rejected.
\<close>

theorem set_servo_position_accepts_0_to_180_witness:
  \<open>fst (set_servo_position 0 (started no_file [True])) = Inr True \<and>
   current_servo_pos (snd (set_servo_position 0 (started no_file [True]))) = 0 \<and>
   emitted (snd (set_servo_position 0 (started no_file [True]))) =
     [map of_nat (str ''{"servo": {"set_position": 0}}'' @ [10])] \<and>
   fst (set_servo_position 180 (started no_file [])) = Inr True \<and>
   current_servo_pos (snd (set_servo_position 180 (started no_file []))) = 180 \<and>
   emitted (snd (set_servo_position 180 (started no_file []))) =
     [map of_nat (str ''{"servo": {"set_position": 180}}'' @ [10])] \<and>
   set_servo_position (- 1) (started no_file []) = (Inr False, started no_file []) \<and>
   set_servo_position 181 (started no_file []) = (Inr False, started no_file [])\<close>
proof -
  have zero: "int_repr 0 = str ''0''" and full: "int_repr 180 = str ''180''"
    by (simp_all add: int_repr_def decimal.simps str_def)
  have low: "0 \<le> (0::int) \<and> (0::int) \<le> 180" and high: "0 \<le> (180::int) \<and> (180::int) \<le> 180"
    and under: "\<not> (0 \<le> (- 1::int) \<and> (- 1::int) \<le> 180)"
    and over: "\<not> (0 \<le> (181::int) \<and> (181::int) \<le> 180)"
    by simp_all
  from low set_servo_position_accepts_0_to_180 [of 0 "started no_file [True]"]
  have \<open>fst (set_servo_position 0 (started no_file [True])) = Inr True \<and>
      current_servo_pos (snd (set_servo_position 0 (started no_file [True]))) = 0 \<and>
      emitted (snd (set_servo_position 0 (started no_file [True]))) =
        emitted (started no_file [True]) @
        [map of_nat (str ''{"servo": {"set_position": '' @ int_repr 0 @ str ''}}'' @ [10])]\<close>
    by blast
  moreover from high set_servo_position_accepts_0_to_180 [of 180 "started no_file []"]
  have \<open>fst (set_servo_position 180 (started no_file [])) = Inr True \<and>
      current_servo_pos (snd (set_servo_position 180 (started no_file []))) = 180 \<and>
      emitted (snd (set_servo_position 180 (started no_file []))) =
        emitted (started no_file []) @
        [map of_nat (str ''{"servo": {"set_position": '' @ int_repr 180 @ str ''}}'' @ [10])]\<close>
    by blast
  moreover from under set_servo_position_accepts_0_to_180 [of "- 1" "started no_file []"]
  have "set_servo_position (- 1) (started no_file []) = (Inr False, started no_file [])"
    by blast
  moreover from over set_servo_position_accepts_0_to_180 [of 181 "started no_file []"]
  have "set_servo_position 181 (started no_file []) = (Inr False, started no_file [])"
    by blast
  ultimately show ?thesis
    by (simp add: zero full started_no_file(4) str_def)
qed

section \<open>The range of the servo position\<close>

text \<open>
  Claim C5 does not hold of the program. \<^verbatim>\<open>enable_servo_control\<close> stores
  \<^verbatim>\<open>servo_allowed_pos\<close> as it stands in the configuration, and \<^verbatim>\<open>load_config\<close>
  installs the value of config.json unchecked. With the file
  \<^verbatim>\<open>{"servo_allowed_pos": 200}\<close> start-up succeeds, and a read of the authorized
  card A1B2C3D4 leaves the position at 200, a value that \<^verbatim>\<open>set_servo_position\<close>
  rejects in the same state.
\<close>

theorem grant_writes_unchecked_position:
  "fst (init (Inr allowed_200_file) []) = Inr () \<and>
   strip (map unat read_A1B2C3D4)
     \<in> set (authorized_cards (config (started (Inr allowed_200_file) []))) \<and>
   current_servo_pos (handle_rfid_data read_A1B2C3D4 (started (Inr allowed_200_file) [])) = 200 \<and>
   set_servo_position 200 (started (Inr allowed_200_file) []) =
     (Inr False, started (Inr allowed_200_file) [])"
proof -
  have cfg: "config (started (Inr allowed_200_file) []) = default_config\<lparr>servo_allowed_pos := 200\<rparr>"
    by (simp add: started_file dict_update_def allowed_200_file_def empty_file_def default_config_def)
  have listed: "str ''A1B2C3D4'' \<in> set (authorized_cards (config (started (Inr allowed_200_file) [])))"
    by (simp add: cfg default_config_def)
  have "current_servo_pos (handle_rfid_data read_A1B2C3D4 (started (Inr allowed_200_file) [])) = 200"
    using listed
    by (simp add: handle_rfid_data_unfold read_A1B2C3D4_card grant_access_state after_print cfg)
  moreover have "fst (init (Inr allowed_200_file) []) = Inr ()"
    by (simp add: init_def load_config_def)
  moreover have "set_servo_position 200 (started (Inr allowed_200_file) []) =
     (Inr False, started (Inr allowed_200_file) [])"
    by (simp add: set_servo_position_def)
  ultimately show ?thesis
    using listed by (simp add: read_A1B2C3D4_card)
qed

section \<open>Registering a card\<close>

text \<open>
  Claim C7. The identifier registered is the line entered at the console without its
  surrounding whitespace. If it is already in \<^verbatim>\<open>authorized_cards\<close>, or empty, the
  registration is rejected: the list is as before and only the rejection message is
  printed. Any other identifier is appended at the end of the list. Registering the same
  line a second time never changes the size of the list.
\<close>

theorem add_authorized_card_rejects_empty_and_duplicates:
  "(strip entered \<in> set (authorized_cards (config s)) \<or> strip entered = [] \<longrightarrow>
      add_authorized_card entered s = print InvalidOrDuplicate s \<and>
      authorized_cards (config (add_authorized_card entered s)) = authorized_cards (config s)) \<and>
   (strip entered \<noteq> [] \<and> strip entered \<notin> set (authorized_cards (config s)) \<longrightarrow>
      authorized_cards (config (add_authorized_card entered s)) =
        authorized_cards (config s) @ [strip entered]) \<and>
   length (authorized_cards (config (add_authorized_card entered (add_authorized_card entered s)))) =
     length (authorized_cards (config (add_authorized_card entered s)))"
  by (auto simp: add_authorized_card_def Let_def print_def)

text \<open>
  On the built-in list: A1B2C3D4 entered with spaces around it is a duplicate, a line
  of spaces is empty, and ZZZZ9999 is appended.
\<close>

theorem add_authorized_card_rejects_empty_and_duplicates_witness:
  "authorized_cards (config (add_authorized_card (str '' A1B2C3D4 '') (started no_file []))) =
     [str ''A1B2C3D4'', str ''E5F6G7H8''] \<and>
   authorized_cards (config (add_authorized_card (str ''  '') (started no_file []))) =
     [str ''A1B2C3D4'', str ''E5F6G7H8''] \<and>
   authorized_cards (config (add_authorized_card (str ''ZZZZ9999'') (started no_file []))) =
     [str ''A1B2C3D4'', str ''E5F6G7H8'', str ''ZZZZ9999'']"
proof -
  have dup: "strip (str '' A1B2C3D4 '') \<in> set (authorized_cards (config (started no_file [])))"
    by (simp add: strip_def isspace_def str_def started_no_file default_config_def)
  have blank: "strip (str ''  '') = []"
    by (simp add: strip_def isspace_def str_def)
  have new: "strip (str ''ZZZZ9999'') = str ''ZZZZ9999''"
    by (simp add: strip_def isspace_def str_def)
  have fresh: "strip (str ''ZZZZ9999'') \<noteq> [] \<and>
      strip (str ''ZZZZ9999'') \<notin> set (authorized_cards (config (started no_file [])))"
    by (simp add: new started_no_file default_config_def) (simp add: str_def)
  from dup
    add_authorized_card_rejects_empty_and_duplicates [of "str '' A1B2C3D4 ''" "started no_file []"]
  have "authorized_cards (config (add_authorized_card (str '' A1B2C3D4 '') (started no_file []))) =
      authorized_cards (config (started no_file []))"
    by blast
  moreover from blank
    add_authorized_card_rejects_empty_and_duplicates [of "str ''  ''" "started no_file []"]
  have "authorized_cards (config (add_authorized_card (str ''  '') (started no_file []))) =
      authorized_cards (config (started no_file []))"
    by blast
  moreover from fresh
    add_authorized_card_rejects_empty_and_duplicates [of "str ''ZZZZ9999''" "started no_file []"]
  have "authorized_cards (config (add_authorized_card (str ''ZZZZ9999'') (started no_file []))) =
      authorized_cards (config (started no_file [])) @ [strip (str ''ZZZZ9999'')]"
    by blast
  ultimately show ?thesis
    by (simp add: new started_no_file default_config_def)
qed

section \<open>Encoding commands\<close>

lemma line_bytes_newline:
  "line_bytes command \<noteq> [] \<and> last (line_bytes command) = 10 \<and>
   10 \<notin> set (butlast (line_bytes command))"
proof -
  have "b \<noteq> 10" if "b \<in> set (map of_nat (json_dumps command))" for b :: byte
  proof -
    from that obtain c where c: "c \<in> set (json_dumps command)" and b: "b = of_nat c"
      by auto
    from c have range: "32 \<le> c \<and> c \<le> 126"
      by (rule json_dumps_printable)
    then have "unat (of_nat c :: byte) = c"
      by (simp add: unat_of_nat)
    with range b show ?thesis
      by auto
  qed
  then show ?thesis
    by (auto simp: line_bytes_def)
qed

text \<open>
  Claim C8. Every command dictionary is encoded without an exception, to a non-empty
  byte sequence that ends with a newline and holds no other newline. The bytes depend
  on the command alone: in every state of the controller and of the serial port,
  \<^verbatim>\<open>send_command\<close> returns normally and hands exactly these bytes to the port.
\<close>

theorem encode_command_total_deterministic:
  "\<exists>bytes. encode_command command = Inr bytes \<and>
     bytes \<noteq> [] \<and> last bytes = 10 \<and> 10 \<notin> set (butlast bytes) \<and>
     (\<forall>s. fst (send_command command s) = Inr () \<and>
          emitted (snd (send_command command s)) = emitted s @ [bytes])"
  using encode_command_total [of command] line_bytes_newline [of command]
  by (simp add: send_command_returns send_command_emitted)

section \<open>Reads that decode to the empty string\<close>

text \<open>
  Decoding never raises: every byte is a valid argument of \<^verbatim>\<open>chr\<close>. When the trimmed
  result is empty and the authorized list holds no empty identifier, the deny
  transition is taken.
\<close>

lemma empty_read_is_denied:
  "chr_join data = Inr (map unat data) \<and>
   (strip (map unat data) = [] \<and> [] \<notin> set (authorized_cards (config s)) \<longrightarrow>
      \<not> servo_control_enabled (handle_rfid_data data s) \<and>
      current_servo_pos (handle_rfid_data data s) = servo_default_pos (config s) \<and>
      emitted (handle_rfid_data data s) =
        emitted s @
        (if str ''red'' \<in> dom (led_pins (config s))
         then [line_bytes (led_command (str ''red'') True)] else []) @
        [line_bytes (servo_enable_command False)] @
        (if str ''red'' \<in> dom (led_pins (config s))
         then [line_bytes (led_command (str ''red'') False)] else []))"
  by (simp add: chr_join_bytes handle_rfid_data_unfold deny_access_state deny_access_emitted
      after_print)

text \<open>A read of a space, a carriage return and a line feed, with the built-in list.\<close>

lemma empty_read_is_denied_example:
  "chr_join read_blank = Inr [32, 13, 10] \<and>
   \<not> servo_control_enabled (handle_rfid_data read_blank (started no_file [])) \<and>
   current_servo_pos (handle_rfid_data read_blank (started no_file [])) = 90"
proof -
  have hyp: "strip (map unat read_blank) = [] \<and>
      [] \<notin> set (authorized_cards (config (started no_file [])))"
    by (simp add: read_blank_card started_no_file default_config_def str_def)
  have "map unat read_blank = [32, 13, 10]"
    by (simp add: read_blank_def)
  with hyp empty_read_is_denied [of read_blank "started no_file []"] show ?thesis
    by (simp add: started_no_file default_config_def)
qed

text \<open>
  Claim C9 does not hold of the program in its second half. The handler has no test for
  an empty identifier, and \<^verbatim>\<open>load_config\<close> installs the list of config.json
  unchecked, although the console refuses to register an empty identifier. With the
  file \<^verbatim>\<open>{"authorized_cards": ["", "A1B2C3D4"]}\<close>, a read of whitespace alone decodes
  to the empty string and is granted: the grant sequence is sent and the servo is
  enabled at 180.
\<close>

theorem empty_read_granted_when_listed:
  "chr_join read_blank = Inr (map unat read_blank) \<and>
   strip (map unat read_blank) = [] \<and>
   servo_control_enabled (handle_rfid_data read_blank (started (Inr empty_card_file) [])) \<and>
   emitted (handle_rfid_data read_blank (started (Inr empty_card_file) [])) =
     [line_bytes (led_command (str ''green'') True), line_bytes (servo_enable_command True),
      line_bytes (led_command (str ''green'') False)]"
proof -
  have cfg: "config (started (Inr empty_card_file) []) =
      default_config\<lparr>authorized_cards := [[], str ''A1B2C3D4'']\<rparr>"
    by (simp add: started_file dict_update_def empty_card_file_def empty_file_def default_config_def)
  have listed: "[] \<in> set (authorized_cards (config (started (Inr empty_card_file) [])))"
    by (simp add: cfg)
  have pins: "str ''green'' \<in> dom (led_pins (config (started (Inr empty_card_file) [])))"
    by (simp add: cfg default_config_def)
  from listed have "handle_rfid_data read_blank (started (Inr empty_card_file) []) =
      snd (grant_access (print (CardRead []) (started (Inr empty_card_file) [])))"
    by (simp add: handle_rfid_data_unfold read_blank_card)
  with pins show ?thesis
    by (simp add: chr_join_bytes read_blank_card grant_access_state grant_access_emitted
        after_print started_file(4))
qed

section \<open>LED control\<close>

text \<open>
  Claim C10. For a colour without an entry in the configured pin map, \<^verbatim>\<open>control_led\<close>
  returns normally and the whole state is as before: nothing is handed to the serial
  port and nothing is printed. For a colour with an entry it returns normally after
  handing the LED command to the port. So a command is sent if and only if the colour
  is in the pin map.
\<close>

theorem control_led_unmapped_colour_is_noop:
  "(led_pins (config s) color = None \<longrightarrow> control_led color state s = (Inr (), s)) \<and>
   (color \<in> dom (led_pins (config s)) \<longrightarrow>
      fst (control_led color state s) = Inr () \<and>
      emitted (snd (control_led color state s)) =
        emitted s @ [line_bytes (led_command color state)]) \<and>
   (emitted (snd (control_led color state s)) \<noteq> emitted s \<longleftrightarrow>
      color \<in> dom (led_pins (config s)))"
proof (intro conjI impI)
  assume "led_pins (config s) color = None"
  then show "control_led color state s = (Inr (), s)"
    by (simp add: control_led_def)
next
  show "fst (control_led color state s) = Inr ()"
    by (rule control_led_returns)
next
  assume "color \<in> dom (led_pins (config s))"
  then show "emitted (snd (control_led color state s)) =
      emitted s @ [line_bytes (led_command color state)]"
    by (simp add: control_led_emitted)
next
  show "emitted (snd (control_led color state s)) \<noteq> emitted s \<longleftrightarrow>
      color \<in> dom (led_pins (config s))"
    by (simp add: control_led_emitted)
qed

text \<open>With the built-in pin map, blue is skipped and green is sent.\<close>

theorem control_led_unmapped_colour_is_noop_witness:
  "control_led (str ''blue'') True (started no_file [True]) = (Inr (), started no_file [True]) \<and>
   emitted (snd (control_led (str ''green'') True (started no_file [True]))) =
     [line_bytes (led_command (str ''green'') True)]"
proof -
  have blue: "led_pins (config (started no_file [True])) (str ''blue'') = None"
    by (simp add: started_no_file default_config_def str_def)
  have green: "str ''green'' \<in> dom (led_pins (config (started no_file [True])))"
    by (simp add: started_no_file default_config_def)
  from blue control_led_unmapped_colour_is_noop [of "started no_file [True]" "str ''blue''" True]
  have "control_led (str ''blue'') True (started no_file [True]) = (Inr (), started no_file [True])"
    by blast
  moreover from green
    control_led_unmapped_colour_is_noop [of "started no_file [True]" "str ''green''" True]
  have "emitted (snd (control_led (str ''green'') True (started no_file [True]))) =
      emitted (started no_file [True]) @ [line_bytes (led_command (str ''green'') True)]"
    by blast
  ultimately show ?thesis
    by (simp add: started_no_file)
qed

end
